theory Spec2Isabelle
  imports Complex_Main "HOL-Library.Signed_Division"
begin

section \<open>Go values\<close>

text \<open>
  Go's \<open>int\<close> has 64 bits and its arithmetic wraps around. It is modelled as the
  unbounded \<^typ>\<open>int\<close>, so a sum, difference or product of the model is the value the
  code computes exactly when it lies in the 64-bit range, \<open>int64\<close> below (a wrapped
  intermediate result does not matter then, the arithmetic being modular). A theorem
  whose statement depends on such a value assumes that it is in range.
  Go's \<open>/\<close> and \<open>%\<close> truncate towards zero, which is \<open>sdiv\<close> and \<open>smod\<close>, and
  panic on a zero divisor. A run-time panic is a value of type \<open>error\<close>.
\<close>

definition int64 :: "int \<Rightarrow> bool" where
  "int64 x = (- (2 ^ 63) \<le> x \<and> x < 2 ^ 63)"

datatype error = DivideByZero | IndexOutOfRange | SliceBoundsOutOfRange | NegativeRepeatCount

definition go_div :: "int \<Rightarrow> int \<Rightarrow> error + int" where
  "go_div a b = (if b = 0 then Inl DivideByZero else Inr (a sdiv b))"

definition go_mod :: "int \<Rightarrow> int \<Rightarrow> error + int" where
  "go_mod a b = (if b = 0 then Inl DivideByZero else Inr (a smod b))"

text \<open>\<open>func max(a, b int) int\<close> of list.go.\<close>

definition max_int :: "int \<Rightarrow> int \<Rightarrow> int" where
  "max_int a b = (if a > b then a else b)"

text \<open>\<open>func min(a, b int) int\<close> of the paginator package.\<close>

definition min_int :: "int \<Rightarrow> int \<Rightarrow> int" where
  "min_int a b = (if a < b then a else b)"

text \<open>Sequencing of fallible steps: the first panic ends the computation.\<close>

definition and_then :: "error + 'a \<Rightarrow> ('a \<Rightarrow> error + 'b) \<Rightarrow> error + 'b" where
  "and_then r f = (case r of Inl e \<Rightarrow> Inl e | Inr x \<Rightarrow> f x)"

subsection \<open>Strings\<close>

text \<open>
  A Go string is a byte sequence, here a \<^typ>\<open>string\<close>. \<open>strings.Replace(s, old, new, n)\<close>
  replaces the first \<open>n\<close> non-overlapping occurrences of \<open>old\<close>, scanning from the left,
  all of them when \<open>n < 0\<close>; \<open>strings.ReplaceAll\<close> is \<open>Replace\<close> with \<open>n = -1\<close>. An empty
  \<open>old\<close> matches before every byte and at the end (for single-byte characters).
\<close>

function Replace :: "string \<Rightarrow> string \<Rightarrow> string \<Rightarrow> int \<Rightarrow> string" where
  "Replace s old new n =
     (if n = 0 then s
      else if old = [] then
        (case s of [] \<Rightarrow> new | c # cs \<Rightarrow> new @ c # Replace cs old new (n - 1))
      else
        (case s of
           [] \<Rightarrow> []
         | c # cs \<Rightarrow>
             if take (length old) s = old
             then new @ Replace (drop (length old) s) old new (n - 1)
             else c # Replace cs old new n))"
  by pat_completeness auto
termination
  by (relation "measure (\<lambda>(s, old, new, n). length s)") auto

declare Replace.simps [simp del]

definition ReplaceAll :: "string \<Rightarrow> string \<Rightarrow> string \<Rightarrow> string" where
  "ReplaceAll s old new = Replace s old new (- 1)"

text \<open>\<open>strings.Repeat(s, count)\<close> panics on a negative count.\<close>

definition Repeat :: "string \<Rightarrow> int \<Rightarrow> error + string" where
  "Repeat s count =
     (if count < 0 then Inl NegativeRepeatCount else Inr (concat (replicate (nat count) s)))"

text \<open>\<open>strconv.Itoa\<close>: the decimal digits of an integer.\<close>

fun digits :: "nat \<Rightarrow> string" where
  "digits n =
     (if n < 10 then [''0123456789'' ! n]
      else digits (n div 10) @ [''0123456789'' ! (n mod 10)])"

declare digits.simps [simp del]

definition Itoa :: "int \<Rightarrow> string" where
  "Itoa i = (if i < 0 then CHR ''-'' # digits (nat (- i)) else digits (nat i))"

text \<open>
  \<open>fmt.Sprintf\<close>, for the two format strings of the source, \<open>"%d%d%d%d%d"\<close> and
  \<open>"%d item%s"\<close>: a format is the list of its literal pieces and verbs. A verb that
  does not fit its operand's type prints \<open>%!verb(type=value)\<close>; \<open>%d\<close> fits integers and
  \<open>%s\<close> fits strings (and prints an integer as \<open>%!s(int=value)\<close>). A verb without an
  operand prints \<open>%!verb(MISSING)\<close>, operands left over print \<open>%!(EXTRA \<dots>)\<close>.
\<close>

datatype fmt_verb = Verb_d | Verb_s

datatype fmt_item = Lit string | Verb fmt_verb

datatype fmt_arg = StringArg string | IntArg int

fun verb_char :: "fmt_verb \<Rightarrow> char" where
  "verb_char Verb_d = CHR ''d''"
| "verb_char Verb_s = CHR ''s''"

fun bad_arg :: "fmt_arg \<Rightarrow> string" where
  "bad_arg (StringArg s) = ''string='' @ s"
| "bad_arg (IntArg i) = ''int='' @ Itoa i"

fun print_arg :: "fmt_verb \<Rightarrow> fmt_arg \<Rightarrow> string" where
  "print_arg Verb_d (IntArg i) = Itoa i"
| "print_arg Verb_s (StringArg s) = s"
| "print_arg v a = ''%!'' @ [verb_char v] @ ''('' @ bad_arg a @ '')''"

fun extra_args :: "fmt_arg list \<Rightarrow> string" where
  "extra_args [] = []"
| "extra_args [a] = bad_arg a"
| "extra_args (a # as) = bad_arg a @ '', '' @ extra_args as"

fun Sprintf :: "fmt_item list \<Rightarrow> fmt_arg list \<Rightarrow> string" where
  "Sprintf [] [] = []"
| "Sprintf [] (a # as) = ''%!(EXTRA '' @ extra_args (a # as) @ '')''"
| "Sprintf (Lit s # fs) as = s @ Sprintf fs as"
| "Sprintf (Verb v # fs) [] = ''%!'' @ [verb_char v] @ ''(MISSING)'' @ Sprintf fs []"
| "Sprintf (Verb v # fs) (a # as) = print_arg v a @ Sprintf fs as"


text \<open>
  \<open>for i := 0; i < n; i++ { acc += s }\<close>, the loop of \<open>getIndentBlock\<close> and of
  \<open>getRightAlignedTimeAgo\<close>.
\<close>

function append_loop :: "int \<Rightarrow> int \<Rightarrow> string \<Rightarrow> string \<Rightarrow> string" where
  "append_loop i n s acc = (if i < n then append_loop (i + 1) n s (acc @ s) else acc)"
  by pat_completeness auto
termination
  by (relation "measure (\<lambda>(i, n, s, acc). nat (n - i))") auto

declare append_loop.simps [simp del]

section \<open>The comment formatter (comment_parser.go)\<close>

definition ESC :: char where "ESC = CHR 0x1B"
definition BEL :: char where "BEL = CHR 0x07"

definition NORMAL :: string where "NORMAL = ESC # ''[0m''"
definition BOLD :: string where "BOLD = ESC # ''[1m''"
definition DIMMED :: string where "DIMMED = ESC # ''[2m''"
definition ITALIC :: string where "ITALIC = ESC # ''[3m''"
definition GREEN :: string where "GREEN = ESC # ''[32;m''"
definition RED :: string where "RED = ESC # ''[31;m''"
definition Link_1 :: string where "Link_1 = ESC # '']8;;''"
definition Link_2 :: string where "Link_2 = [BEL]"
definition Link_3 :: string where "Link_3 = ESC # '']8;;'' @ [BEL]"
definition NewLine :: string where "NewLine = [CHR 0x0A]"
definition DoubleNewLine :: string where "DoubleNewLine = [CHR 0x0A, CHR 0x0A]"

definition getHyperlinkText :: "string \<Rightarrow> string \<Rightarrow> string" where
  "getHyperlinkText URL text =
     Sprintf [Verb Verb_d, Verb Verb_d, Verb Verb_d, Verb Verb_d, Verb Verb_d]
       [StringArg Link_1, StringArg URL, StringArg Link_2, StringArg text, StringArg Link_3]"

definition getDomainText :: "string \<Rightarrow> string \<Rightarrow> string \<Rightarrow> string" where
  "getDomainText domain URL ident =
     (if domain \<noteq> [] then DIMMED @ ''  ('' @ getHyperlinkText URL domain @ '')'' @ NORMAL
      else
        (let linkToComments = ''https://news.ycombinator.com/item?id='' @ ident;
             linkText = ''item?id='' @ ident
         in DIMMED @ ''  ('' @ getHyperlinkText linkToComments linkText @ '')'' @ NORMAL))"

text \<open>
  \<open>getRightAlignedTimeAgo\<close> reads the terminal's width (\<open>terminal.Width()\<close>, an unsigned
  integer) and measures its strings with \<open>term.Len\<close>, the visible length of a string.
  Both belong to other packages and are parameters here.
\<close>

definition getRightAlignedTimeAgo ::
    "nat \<Rightarrow> (string \<Rightarrow> int) \<Rightarrow> string \<Rightarrow> string \<Rightarrow> int \<Rightarrow> string" where
  "getRightAlignedTimeAgo screenWidth Len author timeAgo indentLevel =
     (let authorLength = Len author;
          timeAgoLength = Len timeAgo;
          padding = 6;
          numberOfSpaces = int screenWidth - authorLength - timeAgoLength - padding - indentLevel;
          paddingBetweenAuthorAndTime = append_loop 0 numberOfSpaces '' '' []
      in paddingBetweenAuthorAndTime @ DIMMED @ timeAgo @ NORMAL @ NewLine)"

definition markOPAndMods :: "string \<Rightarrow> string \<Rightarrow> string" where
  "markOPAndMods author op =
     (let markedAuthor =
            (if author = ''dang'' \<or> author = ''sctb'' then author @ GREEN @ '' mod'' @ NORMAL
             else author)
      in if author = op then markedAuthor @ RED @ '' OP'' @ NORMAL else markedAuthor)"

definition getIndentBlock :: "int \<Rightarrow> string" where
  "getIndentBlock level = append_loop 0 level '' '' []"

definition replaceCharacters :: "string \<Rightarrow> string" where
  "replaceCharacters input =
     (let input1 = ReplaceAll input ''&#x27;'' [CHR 0x27];
          input2 = ReplaceAll input1 ''&gt;'' ''>'';
          input3 = ReplaceAll input2 ''&lt;'' ''<'';
          input4 = ReplaceAll input3 ''&#x2F;'' ''/'';
          input5 = ReplaceAll input4 ''&quot;'' [CHR 0x22];
          input6 = ReplaceAll input5 ''&amp;'' ''&''
      in input6)"

definition replaceHTML :: "string \<Rightarrow> string" where
  "replaceHTML input =
     (let input1 = Replace input ''<p>'' [] 1;
          input2 = ReplaceAll input1 ''<p>'' NewLine;
          input3 = ReplaceAll input2 ''<i>'' ITALIC;
          input4 = ReplaceAll input3 ''</i>'' NORMAL;
          input5 = ReplaceAll input4 ''<pre><code>'' DIMMED;
          input6 = ReplaceAll input5 ''</code></pre>'' NORMAL
      in input6)"

text \<open>
  The three regular expressions of \<open>handleHrefTag\<close> are literals (the third one,
  \<open><\/a>\<close>, escapes its slash), and none of the replacements holds a \<open>$\<close>: each
  \<open>ReplaceAllString\<close> replaces the non-overlapping occurrences of a literal from the left.
\<close>

definition ReplaceAllString :: "string \<Rightarrow> string \<Rightarrow> string \<Rightarrow> string" where
  "ReplaceAllString literal src repl = Replace src literal repl (- 1)"

definition handleHrefTag :: "string \<Rightarrow> string" where
  "handleHrefTag input =
     (let replacedInput1 = ReplaceAllString (''<a href='' @ [CHR 0x22]) input Link_1;
          replacedInput2 =
            ReplaceAllString ([CHR 0x22] @ '' rel='' @ [CHR 0x22] @ ''nofollow'' @ [CHR 0x22] @ ''>'')
              replacedInput1 Link_2;
          replacedInput3 = ReplaceAllString ''</a>'' replacedInput2 Link_3
      in replacedInput3)"

definition parseComment :: "string \<Rightarrow> string" where
  "parseComment comment =
     (let fixedHTML = replaceHTML comment;
          fixedHTMLAndCharacters = replaceCharacters fixedHTML;
          fixedHTMLAndCharactersAndHrefs = handleHrefTag fixedHTMLAndCharacters
      in fixedHTMLAndCharactersAndHrefs)"


section \<open>The list engine (bubble/list/list.go)\<close>

subsection \<open>Collaborators\<close>

text \<open>
  Modelled from the spec: type \<open>Item\<close> of package \<open>clx/item\<close> is not under src/. The spec
  gives one story: author handle, title, score, comment count, age string, destination
  URL and domain label. A Go pointer \<open>*item.Item\<close> is an \<^typ>\<open>'a option\<close>, \<open>None\<close> being nil.
\<close>

record Item =
  item_author :: string
  item_title :: string
  item_score :: int
  item_commentCount :: int
  item_age :: string
  item_url :: string
  item_domain :: string

definition zero_Item :: Item where
  "zero_Item = \<lparr>item_author = [], item_title = [], item_score = 0, item_commentCount = 0,
     item_age = [], item_url = [], item_domain = []\<rparr>"

text \<open>
  Modelled from the spec: the constants of package \<open>clx/constants/category\<close> are not under
  src/. The spec's categories are front page, new, ask and show, in this order, and
  list.go counts \<open>numberOfCategories = 4\<close> of them.
\<close>

definition numberOfCategories :: int where "numberOfCategories = 4"
definition category_FrontPage :: int where "category_FrontPage = 0"
definition category_Show :: int where "category_Show = 3"

text \<open>
  Modelled from the spec: the sub-paginator the engine delegates to (package \<open>paginator\<close>
  of the bubbles library) is not under src/. The spec gives it a page index, the items
  per page and the total pages; the total is the ceiling of itemCount / itemsPerPage, a
  page is the slice of the buffer between the page boundaries, and a page change is a
  no-op at the first and at the last page. \<open>SetTotalPages\<close> leaves the total as it is for
  fewer than one item, and \<open>ItemsOnPage\<close> is 0 then.
\<close>

record paginator_Model =
  Page :: int
  PerPage :: int
  TotalPages :: int

definition paginator_New :: paginator_Model where
  "paginator_New = \<lparr>Page = 0, PerPage = 1, TotalPages = 1\<rparr>"

definition paginator_SetTotalPages :: "paginator_Model \<Rightarrow> int \<Rightarrow> error + paginator_Model" where
  "paginator_SetTotalPages p n_items =
     (if n_items < 1 then Inr p
      else
        and_then (go_div n_items (PerPage p)) (\<lambda>n.
        and_then (go_mod n_items (PerPage p)) (\<lambda>r.
        Inr (p\<lparr>TotalPages := (if r > 0 then n + 1 else n)\<rparr>))))"

definition paginator_GetSliceBounds :: "paginator_Model \<Rightarrow> int \<Rightarrow> int \<times> int" where
  "paginator_GetSliceBounds p len =
     (Page p * PerPage p, min_int (Page p * PerPage p + PerPage p) len)"

definition paginator_ItemsOnPage :: "paginator_Model \<Rightarrow> int \<Rightarrow> int" where
  "paginator_ItemsOnPage p totalItems =
     (if totalItems < 1 then 0
      else (case paginator_GetSliceBounds p totalItems of (start, end) \<Rightarrow> end - start))"

definition paginator_OnLastPage :: "paginator_Model \<Rightarrow> bool" where
  "paginator_OnLastPage p = (Page p = TotalPages p - 1)"

definition paginator_PrevPage :: "paginator_Model \<Rightarrow> paginator_Model" where
  "paginator_PrevPage p = (if Page p > 0 then p\<lparr>Page := Page p - 1\<rparr> else p)"

definition paginator_NextPage :: "paginator_Model \<Rightarrow> paginator_Model" where
  "paginator_NextPage p = (if \<not> paginator_OnLastPage p then p\<lparr>Page := Page p + 1\<rparr> else p)"

text \<open>
  \<open>lipgloss.Height\<close>: the number of lines of a string. A \<open>lipgloss.Style\<close> is the function
  its \<open>Render\<close> computes; a key binding is the set of keys \<open>key.Matches\<close> accepts for it.
\<close>

definition lipgloss_Height :: "string \<Rightarrow> int" where
  "lipgloss_Height str = int (count_list str (CHR 0x0A)) + 1"

record list_Styles =
  StatusBar :: "string \<Rightarrow> string"
  StatusEmpty :: "string \<Rightarrow> string"
  NoItems :: "string \<Rightarrow> string"

record list_KeyMap =
  key_ForceQuit :: "string \<Rightarrow> bool"
  key_Quit :: "string \<Rightarrow> bool"
  key_CursorUp :: "string \<Rightarrow> bool"
  key_CursorDown :: "string \<Rightarrow> bool"
  key_PrevPage :: "string \<Rightarrow> bool"
  key_NextPage :: "string \<Rightarrow> bool"
  key_NextCategory :: "string \<Rightarrow> bool"
  key_PreviousCategory :: "string \<Rightarrow> bool"
  key_GoToStart :: "string \<Rightarrow> bool"
  key_GoToEnd :: "string \<Rightarrow> bool"

text \<open>The \<open>Height()\<close> and \<open>Spacing()\<close> of an \<open>ItemDelegate\<close>.\<close>

record ItemDelegate =
  Height :: int
  Spacing :: int

text \<open>
  The messages that \<open>Update\<close> tells apart (a key message holds the key's name), and the
  commands it returns: none, quit, the spinner's tick, the delegate's command, a batch.
\<close>

datatype Msg = KeyMsg string | SpinnerTickMsg | FetchingFinished | StatusMessageTimeoutMsg | OtherMsg

datatype Cmd = CmdNil | CmdQuit | CmdSpinnerTick | CmdDelegate | CmdBatch "Cmd list"

subsection \<open>The model\<close>

text \<open>
  The fields of \<open>Model\<close> that the pagination, the cursor, the categories and the views
  read or write. The title text, the help keys, the spinner's own state, the timers, the
  history, the configuration and the service are left out.
\<close>

record Model =
  showTitle :: bool
  showStatusBar :: bool
  disableInput :: bool
  Styles :: list_Styles
  KeyMap :: list_KeyMap
  showSpinner :: bool
  width :: int
  height :: int
  Paginator :: paginator_Model
  cursor :: int
  onStartup :: bool
  statusMessage :: string
  category :: int
  items :: "Item option list list"
  delegate :: ItemDelegate

text \<open>
  What the engine calls in other packages: \<open>bheader.GetHeader\<close>, the terminal's size
  (\<open>screen.GetTerminalWidth\<close>, \<open>screen.GetTerminalHeight\<close>), the frame size of an empty
  style, the mock service's \<open>FetchStories\<close>, the outcome of \<open>rand.Shuffle\<close>, the
  delegate's \<open>Render\<close> and \<open>Update\<close>, and the default styles and key map.
\<close>

record env =
  GetHeader :: "int \<Rightarrow> int \<Rightarrow> string"
  GetTerminalWidth :: int
  GetTerminalHeight :: int
  GetFrameSize :: "int \<times> int"
  FetchStories :: "int \<Rightarrow> int \<Rightarrow> Item option list"
  Shuffle :: "Item option list \<Rightarrow> Item option list"
  delegate_Render :: "Model \<Rightarrow> int \<Rightarrow> Item option \<Rightarrow> string"
  delegate_Update :: "Msg \<Rightarrow> Model \<Rightarrow> Model \<times> Cmd"
  DefaultStyles :: list_Styles
  DefaultKeyMap :: list_KeyMap


subsection \<open>Selection and cursor\<close>

text \<open>\<open>Items\<close> and \<open>VisibleItems\<close>: \<open>m.items[m.category]\<close>, a panic when out of range.\<close>

definition VisibleItems :: "Model \<Rightarrow> error + Item option list" where
  "VisibleItems m =
     (if 0 \<le> category m \<and> category m < int (length (items m))
      then Inr (items m ! nat (category m)) else Inl IndexOutOfRange)"

text \<open>
  \<open>Index\<close>: the sum is taken in unbounded integers; it is what the code returns when
  \<open>int64 (Index m)\<close> holds, and the code's result wraps around otherwise.
\<close>

definition Index :: "Model \<Rightarrow> int" where
  "Index m = Page (Paginator m) * PerPage (Paginator m) + cursor m"

definition Select :: "Model \<Rightarrow> int \<Rightarrow> error + Model" where
  "Select m index =
     and_then (go_div index (PerPage (Paginator m))) (\<lambda>pg.
     and_then (go_mod index (PerPage (Paginator m))) (\<lambda>c.
     Inr (m\<lparr>Paginator := (Paginator m)\<lparr>Page := pg\<rparr>, cursor := c\<rparr>)))"

definition ResetSelected :: "Model \<Rightarrow> error + Model" where
  "ResetSelected m = Select m 0"

definition SelectedItem :: "Model \<Rightarrow> error + Item option" where
  "SelectedItem m =
     (let i = Index m in
      and_then (VisibleItems m) (\<lambda>its.
      if i < 0 \<or> length its = 0 \<or> int (length its) \<le> i then Inr (Some zero_Item)
      else Inr (its ! nat i)))"

definition CursorUp :: "Model \<Rightarrow> Model" where
  "CursorUp m =
     (let m1 = m\<lparr>cursor := cursor m - 1\<rparr>
      in if cursor m1 < 0 then m1\<lparr>cursor := 0\<rparr> else m1)"

definition CursorDown :: "Model \<Rightarrow> error + Model" where
  "CursorDown m =
     and_then (VisibleItems m) (\<lambda>its.
     let itemsOnPage = paginator_ItemsOnPage (Paginator m) (int (length its));
         m1 = m\<lparr>cursor := cursor m + 1\<rparr>
     in if cursor m1 < itemsOnPage then Inr m1 else Inr (m1\<lparr>cursor := itemsOnPage - 1\<rparr>))"

subsection \<open>Views and pagination\<close>

definition titleView :: "env \<Rightarrow> Model \<Rightarrow> string" where
  "titleView env m = GetHeader env (category m) (width m) @ [CHR 0x0A]"

definition statusView :: "Model \<Rightarrow> error + string" where
  "statusView m =
     and_then (VisibleItems m) (\<lambda>its.
     let visibleItems = int (length its);
         plural = (if visibleItems \<noteq> 1 then ''s'' else []);
         status =
           (if length (items m) = 0 then StatusEmpty (Styles m) []
            else [] @ Sprintf [Verb Verb_d, Lit '' item'', Verb Verb_s]
                        [IntArg visibleItems, StringArg plural])
     in Inr (StatusBar (Styles m) status))"

definition updatePagination :: "env \<Rightarrow> Model \<Rightarrow> error + Model" where
  "updatePagination env m =
     (let index = Index m;
          availHeight = height m;
          availHeight1 =
            (if showTitle m then availHeight - lipgloss_Height (titleView env m) else availHeight)
      in
      and_then
        (if showStatusBar m
         then and_then (statusView m) (\<lambda>v. Inr (availHeight1 - lipgloss_Height v))
         else Inr availHeight1) (\<lambda>availHeight2.
      and_then (go_div availHeight2 (Height (delegate m) + Spacing (delegate m))) (\<lambda>q.
      let p1 = (Paginator m)\<lparr>PerPage := max_int 1 q\<rparr> in
      and_then (VisibleItems m) (\<lambda>its.
      let pages = int (length its) in
      and_then (paginator_SetTotalPages p1 (if pages < 1 then 1 else pages)) (\<lambda>p2.
      and_then (go_div index (PerPage p2)) (\<lambda>pg.
      and_then (go_mod index (PerPage p2)) (\<lambda>c.
      let p3 = p2\<lparr>Page := pg\<rparr>;
          p4 = (if Page p3 \<ge> TotalPages p3 - 1
                then p3\<lparr>Page := max_int 0 (TotalPages p3 - 1)\<rparr> else p3)
      in Inr (m\<lparr>Paginator := p4, cursor := c\<rparr>))))))))"

definition setSize :: "env \<Rightarrow> Model \<Rightarrow> int \<Rightarrow> int \<Rightarrow> error + Model" where
  "setSize env m w h = updatePagination env (m\<lparr>width := w, height := h\<rparr>)"

definition SetItems :: "env \<Rightarrow> Model \<Rightarrow> Item option list \<Rightarrow> error + Model" where
  "SetItems env m i =
     (if 0 \<le> category m \<and> category m < int (length (items m))
      then updatePagination env (m\<lparr>items := (items m)[nat (category m) := i]\<rparr>)
      else Inl IndexOutOfRange)"

subsection \<open>Categories\<close>

definition selectCategory :: "env \<Rightarrow> Model \<Rightarrow> int \<Rightarrow> error + Model" where
  "selectCategory env m cat =
     (let m1 = m\<lparr>category := cat\<rparr> in
      if \<not> (0 \<le> cat \<and> cat < int (length (items m1))) then Inl IndexOutOfRange
      else
        (let categoryIsEmpty = (length (items m1 ! nat cat) = 0) in
         if \<not> categoryIsEmpty
         then updatePagination env (m1\<lparr>Paginator := (Paginator m1)\<lparr>Page := 0\<rparr>\<rparr>)
         else
           (let stories = Shuffle env (FetchStories env 0 (category m1));
                m2 = m1\<lparr>items := (items m1)[nat cat := stories]\<rparr>;
                m3 = m2\<lparr>Paginator := (Paginator m2)\<lparr>Page := 0\<rparr>\<rparr>
            in updatePagination env m3)))"

definition NextCategory :: "env \<Rightarrow> Model \<Rightarrow> error + Model" where
  "NextCategory env m =
     (let isAtLastCategory = (category m = numberOfCategories - 1) in
      if isAtLastCategory then selectCategory env m category_FrontPage
      else selectCategory env m (category m + 1))"

definition PreviousCategory :: "env \<Rightarrow> Model \<Rightarrow> error + Model" where
  "PreviousCategory env m =
     (let isAtFirstCategory = (category m = category_FrontPage) in
      if isAtFirstCategory then selectCategory env m category_Show
      else selectCategory env m (category m - 1))"

subsection \<open>Construction and the update loop\<close>

definition New :: "env \<Rightarrow> ItemDelegate \<Rightarrow> int \<Rightarrow> int \<Rightarrow> error + Model" where
  "New env d w h =
     updatePagination env
       \<lparr>showTitle = True, showStatusBar = True, disableInput = True,
        Styles = DefaultStyles env, KeyMap = DefaultKeyMap env, showSpinner = False,
        width = w, height = h, Paginator = paginator_New, cursor = 0, onStartup = True,
        statusMessage = [], category = 0,
        items = replicate (nat numberOfCategories) [], delegate = d\<rparr>"

definition StopSpinner :: "Model \<Rightarrow> Model" where
  "StopSpinner m = m\<lparr>showSpinner := False\<rparr>"

definition hideStatusMessage :: "Model \<Rightarrow> Model" where
  "hideStatusMessage m = m\<lparr>statusMessage := []\<rparr>"

text \<open>
  The switch of \<open>handleBrowsing\<close> on a key message, after the quit key: the first binding
  that the key matches decides. \<open>numItems\<close> is the length of the active buffer on entry.
\<close>

definition handleKey :: "env \<Rightarrow> Model \<Rightarrow> int \<Rightarrow> string \<Rightarrow> error + Model" where
  "handleKey env m numItems k =
     (if key_CursorUp (KeyMap m) k then Inr (CursorUp m)
      else if key_CursorDown (KeyMap m) k then CursorDown m
      else if key_PrevPage (KeyMap m) k
        then Inr (m\<lparr>Paginator := paginator_PrevPage (Paginator m)\<rparr>)
      else if key_NextPage (KeyMap m) k
        then Inr (m\<lparr>Paginator := paginator_NextPage (Paginator m)\<rparr>)
      else if key_NextCategory (KeyMap m) k then NextCategory env m
      else if key_PreviousCategory (KeyMap m) k then PreviousCategory env m
      else if key_GoToStart (KeyMap m) k
        then Inr (m\<lparr>Paginator := (Paginator m)\<lparr>Page := 0\<rparr>, cursor := 0\<rparr>)
      else if key_GoToEnd (KeyMap m) k
        then (let p = (Paginator m)\<lparr>Page := TotalPages (Paginator m) - 1\<rparr>
              in Inr (m\<lparr>Paginator := p, cursor := paginator_ItemsOnPage p numItems - 1\<rparr>))
      else Inr m)"

definition handleBrowsing :: "env \<Rightarrow> Model \<Rightarrow> Msg \<Rightarrow> error + Model \<times> Cmd" where
  "handleBrowsing env m msg =
     and_then (VisibleItems m) (\<lambda>its0.
     let numItems = int (length its0) in
     if (case msg of KeyMsg k \<Rightarrow> key_Quit (KeyMap m) k | _ \<Rightarrow> False) then Inr (m, CmdQuit)
     else
       and_then (case msg of KeyMsg k \<Rightarrow> handleKey env m numItems k | _ \<Rightarrow> Inr m) (\<lambda>m1.
       case delegate_Update env msg m1 of (m2, cmd) \<Rightarrow>
       and_then (VisibleItems m2) (\<lambda>its.
       let itemsOnPage = paginator_ItemsOnPage (Paginator m2) (int (length its));
           m3 = (if cursor m2 > itemsOnPage - 1
                 then m2\<lparr>cursor := max_int 0 (itemsOnPage - 1)\<rparr> else m2)
       in Inr (m3, CmdBatch [cmd]))))"

definition Update :: "env \<Rightarrow> Model \<Rightarrow> Msg \<Rightarrow> error + Model \<times> Cmd" where
  "Update env m msg =
     (let browse = (\<lambda>m' cmds.
            and_then (handleBrowsing env m' msg) (\<lambda>(m'', c). Inr (m'', CmdBatch (cmds @ [c]))))
      in case msg of
        KeyMsg k \<Rightarrow> if key_ForceQuit (KeyMap m) k then Inr (m, CmdQuit) else browse m []
      | SpinnerTickMsg \<Rightarrow> browse m (if showSpinner m then [CmdSpinnerTick] else [])
      | FetchingFinished \<Rightarrow>
          (let m1 = StopSpinner m in
           case GetFrameSize env of (h, v) \<Rightarrow>
           and_then (setSize env m1 (GetTerminalWidth env - h) (GetTerminalHeight env - v)) (\<lambda>m2.
           Inr (m2\<lparr>disableInput := False\<rparr>, CmdNil)))
      | StatusMessageTimeoutMsg \<Rightarrow> browse (hideStatusMessage m) []
      | OtherMsg \<Rightarrow> browse m [])"

subsection \<open>The body of the view\<close>

text \<open>
  The loop of \<open>populatedView\<close> over the rows of the page: each row is rendered by the
  delegate, and every row but the last is followed by \<open>Spacing() + 1\<close> newlines.
\<close>

fun render_docs ::
    "(int \<Rightarrow> Item option \<Rightarrow> string) \<Rightarrow> int \<Rightarrow> int \<Rightarrow> int \<Rightarrow> Item option list \<Rightarrow> string
      \<Rightarrow> error + string" where
  "render_docs rend spacing n i [] b = Inr b"
| "render_docs rend spacing n i (it # its) b =
     (let b1 = b @ rend i it in
      if i \<noteq> n - 1
      then and_then (Repeat [CHR 0x0A] (spacing + 1)) (\<lambda>nl.
             render_docs rend spacing n (i + 1) its (b1 @ nl))
      else render_docs rend spacing n (i + 1) its b1)"

text \<open>\<open>items[start:end]\<close> panics unless \<open>0 \<le> start \<le> end \<le> len(items)\<close>.\<close>

definition slice :: "'a list \<Rightarrow> int \<Rightarrow> int \<Rightarrow> error + 'a list" where
  "slice xs lo hi =
     (if 0 \<le> lo \<and> lo \<le> hi \<and> hi \<le> int (length xs)
      then Inr (take (nat (hi - lo)) (drop (nat lo) xs)) else Inl SliceBoundsOutOfRange)"

definition populatedView :: "env \<Rightarrow> Model \<Rightarrow> error + string" where
  "populatedView env m =
     and_then (VisibleItems m) (\<lambda>its.
     if length its = 0 then Inr (NoItems (Styles m) [])
     else
       and_then
         (if length its > 0
          then (case paginator_GetSliceBounds (Paginator m) (int (length its)) of (start, end) \<Rightarrow>
                  and_then (slice its start end) (\<lambda>docs.
                  render_docs (\<lambda>i it. delegate_Render env m (i + start) it)
                    (Spacing (delegate m)) (int (length docs)) 0 docs []))
          else Inr []) (\<lambda>b.
       let itemsOnPage = paginator_ItemsOnPage (Paginator m) (int (length its)) in
       if itemsOnPage < PerPage (Paginator m)
       then (let n = (PerPage (Paginator m) - itemsOnPage)
                       * (Height (delegate m) + Spacing (delegate m));
                 n' = (if length its = 0 then n - (Height (delegate m) - 1) else n)
             in and_then (Repeat [CHR 0x0A] n') (\<lambda>nl. Inr (b @ nl)))
       else Inr b))"


section \<open>The pagination formula of the specification\<close>

text \<open>
  The specification's formula, in its own words: the available height is the viewport
  height minus the rendered height of the title and status chrome currently shown, and
  \<^verbatim>\<open>
  itemsPerPage   = max(1, availableHeight / (itemRenderHeight + itemSpacing))
  totalPages     = max(1, ceil(itemCount / itemsPerPage))
  page           = floor(previousGlobalIndex / itemsPerPage)
  cursor         = previousGlobalIndex mod itemsPerPage
  if page >= totalPages: page = max(0, totalPages - 1)
  \<close>
  The result is (itemsPerPage, totalPages, page, cursor).
\<close>

definition spec_availableHeight :: "int \<Rightarrow> bool \<Rightarrow> int \<Rightarrow> bool \<Rightarrow> int \<Rightarrow> int" where
  "spec_availableHeight viewportHeight titleShown titleHeight statusShown statusHeight =
     viewportHeight - (if titleShown then titleHeight else 0)
       - (if statusShown then statusHeight else 0)"

definition spec_pagination :: "int \<Rightarrow> int \<Rightarrow> int \<Rightarrow> int \<Rightarrow> int \<Rightarrow> int \<times> int \<times> int \<times> int" where
  "spec_pagination availableHeight itemRenderHeight itemSpacing itemCount previousGlobalIndex =
     (let itemsPerPage = max 1 \<lfloor>real_of_int availableHeight / real_of_int (itemRenderHeight + itemSpacing)\<rfloor>;
          totalPages = max 1 \<lceil>real_of_int itemCount / real_of_int itemsPerPage\<rceil>;
          page = \<lfloor>real_of_int previousGlobalIndex / real_of_int itemsPerPage\<rfloor>;
          cursor = previousGlobalIndex mod itemsPerPage;
          page' = (if page \<ge> totalPages then max 0 (totalPages - 1) else page)
      in (itemsPerPage, totalPages, page', cursor))"

section \<open>States\<close>

text \<open>
  The active category indexes one of the buffers, as in every state that \<open>New\<close> builds
  and the category operations reach.
\<close>

definition category_in_range :: "Model \<Rightarrow> bool" where
  "category_in_range m = (0 \<le> category m \<and> category m < int (length (items m)))"

text \<open>
  The specification's cursor invariant: \<open>0 \<le> cursor < itemsOnCurrentPage\<close>, and
  \<open>cursor = 0\<close> when the page is empty.
\<close>

definition cursor_invariant :: "Model \<Rightarrow> bool" where
  "cursor_invariant m =
     (case VisibleItems m of
        Inl e \<Rightarrow> False
      | Inr its \<Rightarrow>
          (let itemsOnPage = paginator_ItemsOnPage (Paginator m) (int (length its))
           in if itemsOnPage \<le> 0 then cursor m = 0 else 0 \<le> cursor m \<and> cursor m < itemsOnPage))"

text \<open>
  None of the integers that \<open>updatePagination\<close> computes before its divisions leaves the
  64-bit range: the global index, the delegate's height plus spacing, the available
  height, and the quotient of the two (which overflows for \<open>-2^63 / -1\<close>). What follows
  in the code is bounded by these and by the length of the buffer.
\<close>

definition pagination_in_int64 :: "env \<Rightarrow> Model \<Rightarrow> bool" where
  "pagination_in_int64 env m =
     (int64 (Index m) \<and> int64 (Height (delegate m) + Spacing (delegate m)) \<and>
      (case statusView m of
         Inl e \<Rightarrow> True
       | Inr sv \<Rightarrow>
           (let availableHeight =
                  spec_availableHeight (height m) (showTitle m)
                    (lipgloss_Height (titleView env m)) (showStatusBar m) (lipgloss_Height sv)
            in int64 availableHeight \<and>
               int64 (availableHeight sdiv (Height (delegate m) + Spacing (delegate m))))))"

subsection \<open>A concrete terminal\<close>

text \<open>
  Styles that add nothing to their text (as \<open>lipgloss.NewStyle()\<close> renders), arrow and tab
  keys, a one-line header, a terminal of 80 by 24 cells, a service with two stories per
  category, and rows two lines high with one line between them.
\<close>

definition plain_Styles :: list_Styles where
  "plain_Styles = \<lparr>StatusBar = (\<lambda>s. s), StatusEmpty = (\<lambda>s. s), NoItems = (\<lambda>s. s)\<rparr>"

definition arrow_KeyMap :: list_KeyMap where
  "arrow_KeyMap =
     \<lparr>key_ForceQuit = (\<lambda>k. k = ''ctrl+c''), key_Quit = (\<lambda>k. k = ''q''),
      key_CursorUp = (\<lambda>k. k = ''up''), key_CursorDown = (\<lambda>k. k = ''down''),
      key_PrevPage = (\<lambda>k. k = ''left''), key_NextPage = (\<lambda>k. k = ''right''),
      key_NextCategory = (\<lambda>k. k = ''tab''), key_PreviousCategory = (\<lambda>k. k = ''shift+tab''),
      key_GoToStart = (\<lambda>k. k = ''g''), key_GoToEnd = (\<lambda>k. k = ''G'')\<rparr>"

definition story :: "string \<Rightarrow> Item option" where
  "story t = Some (zero_Item\<lparr>item_title := t\<rparr>)"

definition terminal_env :: env where
  "terminal_env =
     \<lparr>GetHeader = (\<lambda>c w. ''circumflex''), GetTerminalWidth = 80, GetTerminalHeight = 24,
      GetFrameSize = (0, 0),
      FetchStories = (\<lambda>p c. [story ''a'', story ''b'']),
      Shuffle = rev,
      delegate_Render = (\<lambda>m i it. ''row''),
      delegate_Update = (\<lambda>msg m. (m, CmdDelegate)),
      DefaultStyles = plain_Styles, DefaultKeyMap = arrow_KeyMap\<rparr>"

definition five :: "Item option list" where
  "five = [story ''a'', story ''b'', story ''c'', story ''d'', story ''e'']"

definition rows :: ItemDelegate where
  "rows = \<lparr>Height = 2, Spacing = 1\<rparr>"

text \<open>
  A state with the given page size, page, cursor, category and buffers, no title and
  no status bar, in a viewport 80 wide and \<open>h\<close> high.
\<close>

definition state :: "int \<Rightarrow> paginator_Model \<Rightarrow> int \<Rightarrow> int \<Rightarrow> Item option list list \<Rightarrow> Model" where
  "state h p c cat bufs =
     \<lparr>showTitle = False, showStatusBar = False, disableInput = True,
      Styles = plain_Styles, KeyMap = arrow_KeyMap, showSpinner = False,
      width = 80, height = h, Paginator = p, cursor = c, onStartup = True,
      statusMessage = [], category = cat, items = bufs, delegate = rows\<rparr>"

section \<open>Properties\<close>

subsection \<open>Strings and loops\<close>

lemma and_then_simps [simp]:
  "and_then (Inl e) f = Inl e"
  "and_then (Inr x) f = f x"
  by (simp_all add: and_then_def)

lemma append_loop_eq: "append_loop i n s acc = acc @ concat (replicate (nat (n - i)) s)"
proof (induction i n s acc rule: append_loop.induct)
  case (1 i n s acc)
  show ?case
  proof (cases "i < n")
    case True
    then have k: "nat (n - i) = Suc (nat (n - (i + 1)))" by simp
    have "append_loop i n s acc = append_loop (i + 1) n s (acc @ s)"
      using True by (subst append_loop.simps) simp
    also have "\<dots> = (acc @ s) @ concat (replicate (nat (n - (i + 1))) s)"
      using "1.IH" [OF True] .
    also have "\<dots> = acc @ concat (replicate (nat (n - i)) s)"
      unfolding k by simp
    finally show ?thesis .
  next
    case False
    then show ?thesis by (subst append_loop.simps) simp
  qed
qed

lemma concat_replicate_single: "concat (replicate k [c]) = replicate k c"
  by (induction k) simp_all

text \<open>A pattern with a byte that the subject does not hold is never found.\<close>

lemma Replace_absent:
  assumes "c \<in> set old" and "c \<notin> set s"
  shows "Replace s old new n = s"
  using assms(2)
proof (induction s arbitrary: n)
  case Nil
  from assms(1) have "old \<noteq> []" by auto
  then show ?case by (subst Replace.simps) simp
next
  case (Cons a s)
  from assms(1) have ne: "old \<noteq> []" by auto
  have "take (length old) (a # s) \<noteq> old"
  proof
    assume "take (length old) (a # s) = old"
    then have "set old \<subseteq> set (a # s)" by (metis set_take_subset)
    with assms(1) Cons.prems show False by auto
  qed
  moreover from Cons have "Replace s old new n = s" by simp
  ultimately show ?case using ne by (subst Replace.simps) simp
qed

subsection \<open>The comment formatter\<close>

lemma getHyperlinkText_eq:
  "getHyperlinkText URL text =
     ''%!d(string='' @ Link_1 @ '')%!d(string='' @ URL @ '')%!d(string='' @ Link_2 @
     '')%!d(string='' @ text @ '')%!d(string='' @ Link_3 @ '')''"
  by (simp add: getHyperlinkText_def)

text \<open>
  Whatever the URL and the text, \<open>getHyperlinkText\<close> does not return the OSC-8 sequence:
  its result starts with a percent sign, the sequence with ESC.
\<close>

lemma getHyperlinkText_never_osc8:
  "getHyperlinkText URL text \<noteq> Link_1 @ URL @ Link_2 @ text @ Link_3"
  by (simp add: getHyperlinkText_def Link_1_def ESC_def)

text \<open>
  C2. The claim: \<open>getHyperlinkText(u, t)\<close> is exactly ESC ] 8 ; ; u BEL t ESC ] 8 ; ; BEL.
  The code formats its five strings with the integer verb \<open>%d\<close>, so each of them is
  printed as \<open>%!d(string=\<dots>)\<close>: for the URL \<open>https://example.com\<close> and the text \<open>example\<close>
  the result is the text below, not the hyperlink sequence.
\<close>

theorem getHyperlinkText_bad_verb:
  "getHyperlinkText ''https://example.com'' ''example'' =
     ''%!d(string='' @ [CHR 0x1B] @ '']8;;)%!d(string=https://example.com)%!d(string='' @
       [CHR 0x07] @ '')%!d(string=example)%!d(string='' @ [CHR 0x1B] @ '']8;;'' @ [CHR 0x07] @ '')''
   \<and> getHyperlinkText ''https://example.com'' ''example'' \<noteq>
       Link_1 @ ''https://example.com'' @ Link_2 @ ''example'' @ Link_3"
  by (simp add: getHyperlinkText_def Link_1_def Link_2_def Link_3_def ESC_def BEL_def)

lemma replaceHTML_no_tag: "CHR ''<'' \<notin> set s \<Longrightarrow> replaceHTML s = s"
  by (simp add: replaceHTML_def ReplaceAll_def Let_def Replace_absent [where c = "CHR ''<''"])

text \<open>
  C3. The claim: all tag substitution, the anchor tags included, runs before the
  entities are decoded, so that decoding never re-introduces tag syntax that is then
  processed as a tag. The paragraph, italic and preformatted tags are substituted before
  the decoding (\<open>replaceHTML_no_tag\<close>: italic syntax written with entities stays text), but
  \<open>handleHrefTag\<close> runs after it: a body that holds no tag at all, only the escaped text of
  an anchor, comes out as a complete hyperlink escape sequence, where substituting the
  anchors before decoding would give the anchor's text. The claim's own example,
  \<open>it&#x27;s <i>great</i>\<close>, holds no anchor and is formatted as the claim says.
\<close>

theorem parseComment_decoded_anchor_processed:
  "parseComment
     (''&lt;a href=&quot;https:&#x2F;&#x2F;example.com&quot; rel=&quot;nofollow&quot;&gt;'' @
      ''click&lt;&#x2F;a&gt;'')
     = Link_1 @ ''https://example.com'' @ Link_2 @ ''click'' @ Link_3
   \<and> replaceCharacters (handleHrefTag (replaceHTML
       (''&lt;a href=&quot;https:&#x2F;&#x2F;example.com&quot; rel=&quot;nofollow&quot;&gt;'' @
        ''click&lt;&#x2F;a&gt;'')))
     = ''<a href='' @ [CHR 0x22] @ ''https://example.com'' @ [CHR 0x22] @ '' rel='' @ [CHR 0x22] @
       ''nofollow'' @ [CHR 0x22] @ ''>click</a>''
   \<and> parseComment ''&lt;/a&gt;'' = Link_3
   \<and> parseComment ''&lt;i&gt;x&lt;/i&gt;'' = ''<i>x</i>''
   \<and> parseComment ''it&#x27;s <i>great</i>'' =
       ''it'' @ [CHR 0x27] @ ''s '' @ ITALIC @ ''great'' @ NORMAL"
proof -
  have a: "parseComment
     (''&lt;a href=&quot;https:&#x2F;&#x2F;example.com&quot; rel=&quot;nofollow&quot;&gt;'' @
      ''click&lt;&#x2F;a&gt;'')
     = Link_1 @ ''https://example.com'' @ Link_2 @ ''click'' @ Link_3"
    by code_simp
  have b: "replaceCharacters (handleHrefTag (replaceHTML
       (''&lt;a href=&quot;https:&#x2F;&#x2F;example.com&quot; rel=&quot;nofollow&quot;&gt;'' @
        ''click&lt;&#x2F;a&gt;'')))
     = ''<a href='' @ [CHR 0x22] @ ''https://example.com'' @ [CHR 0x22] @ '' rel='' @ [CHR 0x22] @
       ''nofollow'' @ [CHR 0x22] @ ''>click</a>''"
    by code_simp
  have c: "parseComment ''&lt;/a&gt;'' = Link_3" by code_simp
  have d: "parseComment ''&lt;i&gt;x&lt;/i&gt;'' = ''<i>x</i>''" by code_simp
  have e: "parseComment ''it&#x27;s <i>great</i>'' =
       ''it'' @ [CHR 0x27] @ ''s '' @ ITALIC @ ''great'' @ NORMAL"
    by code_simp
  from a b c d e show ?thesis by blast
qed

text \<open>
  C9. For every author, age, indent level and terminal width, \<open>getRightAlignedTimeAgo\<close>
  returns max(0, width - visible length of the author - visible length of the age - 6
  - indent) spaces, then the dimmed age and a newline; it is a total function, so a
  negative gap is no failure. With width 80, author \<open>bob\<close>, age \<open>3 hours ago\<close> and depth 0
  there are 80 - 3 - 11 - 6 = 60 spaces, with width 5 there is none.
\<close>

theorem getRightAlignedTimeAgo_gap:
  "getRightAlignedTimeAgo screenWidth Len author timeAgo indentLevel =
     replicate (nat (max 0 (int screenWidth - Len author - Len timeAgo - 6 - indentLevel))) CHR '' ''
       @ DIMMED @ timeAgo @ NORMAL @ NewLine
   \<and> getRightAlignedTimeAgo 80 (\<lambda>s. int (length s)) ''bob'' ''3 hours ago'' 0 =
       replicate 60 CHR '' '' @ DIMMED @ ''3 hours ago'' @ NORMAL @ NewLine
   \<and> getRightAlignedTimeAgo 5 (\<lambda>s. int (length s)) ''bob'' ''3 hours ago'' 0 =
       DIMMED @ ''3 hours ago'' @ NORMAL @ NewLine"
proof -
  have loop: "append_loop 0 n '' '' [] = replicate (nat (max 0 n)) CHR '' ''" for n
    by (simp add: append_loop_eq concat_replicate_single)
  have general: "getRightAlignedTimeAgo w L a t d =
      replicate (nat (max 0 (int w - L a - L t - 6 - d))) CHR '' '' @ DIMMED @ t @ NORMAL @ NewLine"
    for w L a t d
    by (simp add: getRightAlignedTimeAgo_def Let_def loop)
  have wide: "getRightAlignedTimeAgo 80 (\<lambda>s. int (length s)) ''bob'' ''3 hours ago'' 0 =
       replicate 60 CHR '' '' @ DIMMED @ ''3 hours ago'' @ NORMAL @ NewLine"
    unfolding general by simp
  have narrow: "getRightAlignedTimeAgo 5 (\<lambda>s. int (length s)) ''bob'' ''3 hours ago'' 0 =
       DIMMED @ ''3 hours ago'' @ NORMAL @ NewLine"
    unfolding general by simp
  from general wide narrow show ?thesis by blast
qed

subsection \<open>Integer division of Go and of the specification\<close>

lemma go_div_simps [simp]:
  "b \<noteq> 0 \<Longrightarrow> go_div a b = Inr (a sdiv b)"
  "b \<noteq> 0 \<Longrightarrow> go_mod a b = Inr (a smod b)"
  "go_div a 0 = Inl DivideByZero"
  "go_mod a 0 = Inl DivideByZero"
  by (simp_all add: go_div_def go_mod_def)

lemma sdiv_nonneg: "0 \<le> k \<Longrightarrow> 0 < l \<Longrightarrow> k sdiv l = k div (l::int)"
  by (simp add: signed_divide_int_def sgn_if)

lemma smod_nonneg: "0 \<le> k \<Longrightarrow> 0 < l \<Longrightarrow> k smod l = k mod (l::int)"
  by (simp add: signed_modulo_int_def sgn_if)

lemma max_int_ge1 [simp]: "1 \<le> max_int 1 q" "max_int 1 q \<noteq> 0" "0 < max_int 1 q"
  by (simp_all add: max_int_def)

lemma max_int_eq_max: "max_int a b = max a b"
  by (simp add: max_int_def max_def)

text \<open>
  Truncated and floored quotients differ only where both are at most 0, which the
  lower bound of 1 hides.
\<close>

lemma perPage_trunc_floor:
  assumes "b \<noteq> 0"
  shows "max_int 1 (a sdiv b) = max 1 \<lfloor>real_of_int a / real_of_int b\<rfloor>"
proof -
  have fl: "\<lfloor>real_of_int a / real_of_int b\<rfloor> = a div b" by (rule floor_divide_of_int_eq)
  show ?thesis
  proof (cases "sgn a \<noteq> sgn b \<and> \<not> b dvd a")
    case False
    then have "a sdiv b = a div b" using assms by (simp add: signed_divide_int_eq_divide_int)
    then show ?thesis by (simp add: fl max_int_eq_max)
  next
    case True
    then have s: "a sdiv b = a div b + 1" using assms by (simp add: signed_divide_int_eq_divide_int)
    from True have "a \<noteq> 0" by auto
    with True assms have "a div b < 0"
      by (cases "0 < b") (auto simp add: pos_imp_zdiv_neg_iff neg_imp_zdiv_neg_iff sgn_if split: if_splits)
    then show ?thesis by (simp add: fl s max_int_eq_max)
  qed
qed

text \<open>
  The quotient plus one for a remainder is the ceiling; for an empty buffer the code
  passes one item instead and the specification takes the maximum with 1.
\<close>

lemma totalPages_ceiling:
  assumes "1 \<le> p" and "0 \<le> len"
  defines "n \<equiv> (if len < 1 then 1 else len)"
  shows "n sdiv p + (if n smod p > 0 then 1 else 0) = max 1 \<lceil>real_of_int len / real_of_int p\<rceil>"
proof -
  have c: "\<lceil>real_of_int k / real_of_int p\<rceil> = (if k mod p = 0 then k div p else k div p + 1)" for k
    using assms(1) by (simp add: ceiling_divide_eq_div zdiv_zminus1_eq_if)
  have n1: "1 \<le> n" by (simp add: n_def)
  have sd: "n sdiv p = n div p" "n smod p = n mod p"
    using n1 assms(1) by (simp_all add: sdiv_nonneg smod_nonneg)
  have "0 \<le> n mod p" using assms(1) by simp
  then have m: "(n mod p > 0) = (n mod p \<noteq> 0)" by linarith
  have "n sdiv p + (if n smod p > 0 then 1 else 0) = \<lceil>real_of_int n / real_of_int p\<rceil>"
    by (simp add: sd m c)
  moreover have "\<lceil>real_of_int n / real_of_int p\<rceil> = max 1 \<lceil>real_of_int len / real_of_int p\<rceil>"
  proof (cases "len < 1")
    case True
    with assms(2) have l0: "len = 0" by simp
    have "\<lceil>real_of_int 1 / real_of_int p\<rceil> = (if 1 mod p = 0 then 1 div p else 1 div p + 1)"
      by (rule c)
    also have "\<dots> = 1"
    proof (cases "p = 1")
      case True
      then show ?thesis by simp
    next
      case False
      with assms(1) have "1 < p" by simp
      then have "1 mod p = 1" "1 div p = 0" by simp_all
      then show ?thesis by simp
    qed
    finally show ?thesis by (simp add: n_def l0)
  next
    case False
    then have "1 \<le> len" by simp
    moreover have "0 < real_of_int p" using assms(1) by simp
    ultimately have "0 < real_of_int len / real_of_int p" by simp
    then have "1 \<le> \<lceil>real_of_int len / real_of_int p\<rceil>" by linarith
    with False show ?thesis by (simp add: n_def)
  qed
  ultimately show ?thesis by simp
qed

lemma index_floor_mod:
  assumes "0 \<le> i" and "1 \<le> p"
  shows "i sdiv p = \<lfloor>real_of_int i / real_of_int p\<rfloor>" and "i smod p = i mod p"
  using assms by (simp_all add: floor_divide_of_int_eq sdiv_nonneg smod_nonneg)

text \<open>
  The code clamps a page from \<open>TotalPages - 1\<close> on, the specification from \<open>totalPages\<close>
  on; with at least one page the two agree.
\<close>

lemma clamp_equiv:
  assumes "1 \<le> tp"
  shows "(if pg \<ge> tp - 1 then max_int 0 (tp - 1) else pg) = (if pg \<ge> tp then max 0 (tp - 1) else pg)"
  using assms by (auto simp add: max_int_eq_max)


subsection \<open>Pagination\<close>

lemma VisibleItems_in_range:
  "category_in_range m \<Longrightarrow> VisibleItems m = Inr (items m ! nat (category m))"
  by (simp add: category_in_range_def VisibleItems_def)

lemma statusView_in_range:
  "category_in_range m \<Longrightarrow> \<exists>sv. statusView m = Inr sv"
  by (simp add: statusView_def VisibleItems_in_range Let_def)

lemma SetTotalPages_pos:
  "1 \<le> n \<Longrightarrow> PerPage p \<noteq> 0 \<Longrightarrow>
   paginator_SetTotalPages p n =
     Inr (p\<lparr>TotalPages := n sdiv PerPage p + (if n smod PerPage p > 0 then 1 else 0)\<rparr>)"
  by (simp add: paginator_SetTotalPages_def)

text \<open>What \<open>updatePagination\<close> computes, in Go's own arithmetic.\<close>

lemma updatePagination_result:
  assumes "Height (delegate m) + Spacing (delegate m) \<noteq> 0"
    and "statusView m = Inr sv" and "VisibleItems m = Inr its"
  shows "updatePagination env m =
    (let avail = height m - (if showTitle m then lipgloss_Height (titleView env m) else 0)
                   - (if showStatusBar m then lipgloss_Height sv else 0);
         ipp = max_int 1 (avail sdiv (Height (delegate m) + Spacing (delegate m)));
         n = (if int (length its) < 1 then 1 else int (length its));
         tp = n sdiv ipp + (if n smod ipp > 0 then 1 else 0);
         pg = Index m sdiv ipp
     in Inr (m\<lparr>Paginator := (Paginator m)\<lparr>PerPage := ipp, TotalPages := tp,
                 Page := (if pg \<ge> tp - 1 then max_int 0 (tp - 1) else pg)\<rparr>,
               cursor := Index m smod ipp\<rparr>))"
proof -
  define avail where "avail = height m - (if showTitle m then lipgloss_Height (titleView env m) else 0)
                   - (if showStatusBar m then lipgloss_Height sv else 0)"
  define ipp where "ipp = max_int 1 (avail sdiv (Height (delegate m) + Spacing (delegate m)))"
  define n where "n = (if int (length its) < 1 then 1 else int (length its))"
  define p1 where "p1 = (Paginator m)\<lparr>PerPage := ipp\<rparr>"
  define tp where "tp = n sdiv ipp + (if n smod ipp > 0 then 1 else 0)"
  have n1: "1 \<le> n" by (cases its) (simp_all add: n_def)
  have ipp0: "ipp \<noteq> 0" by (simp add: ipp_def)
  have a: "(if showStatusBar m
         then and_then (statusView m) (\<lambda>v. Inr ((if showTitle m then height m - lipgloss_Height (titleView env m) else height m) - lipgloss_Height v))
         else Inr (if showTitle m then height m - lipgloss_Height (titleView env m) else height m)) = Inr avail"
    using assms(2) by (simp add: avail_def)
  have d: "go_div avail (Height (delegate m) + Spacing (delegate m)) =
      Inr (avail sdiv (Height (delegate m) + Spacing (delegate m)))"
    using assms(1) by simp
  have b: "paginator_SetTotalPages p1 n = Inr (p1\<lparr>TotalPages := tp\<rparr>)"
    using SetTotalPages_pos [of n p1] n1 ipp0 by (simp add: p1_def tp_def)
  have e: "go_div (Index m) (PerPage (p1\<lparr>TotalPages := tp\<rparr>)) = Inr (Index m sdiv ipp)"
    "go_mod (Index m) (PerPage (p1\<lparr>TotalPages := tp\<rparr>)) = Inr (Index m smod ipp)"
    using ipp0 by (simp_all add: p1_def)
  have "updatePagination env m =
      (let p3 = p1\<lparr>TotalPages := tp, Page := Index m sdiv ipp\<rparr>;
           p4 = (if Page p3 \<ge> TotalPages p3 - 1
                then p3\<lparr>Page := max_int 0 (TotalPages p3 - 1)\<rparr> else p3)
       in Inr (m\<lparr>Paginator := p4, cursor := Index m smod ipp\<rparr>))"
    unfolding updatePagination_def Let_def a and_then_simps d assms(3)
      ipp_def [symmetric] p1_def [symmetric] n_def [symmetric] b e
    by (rule refl)
  also have "\<dots> = Inr (m\<lparr>Paginator := (Paginator m)\<lparr>PerPage := ipp, TotalPages := tp,
                 Page := (if Index m sdiv ipp \<ge> tp - 1 then max_int 0 (tp - 1) else Index m sdiv ipp)\<rparr>,
               cursor := Index m smod ipp\<rparr>)"
    by (simp add: p1_def Let_def)
  finally show ?thesis
    by (simp add: Let_def avail_def ipp_def n_def tp_def)
qed


text \<open>
  C1, as stated, fails. With a negative global index the code's \<open>/\<close> and \<open>%\<close> truncate
  towards zero where the formula takes the floor and the modulus: from page 0 with
  cursor -1 and two rows per page the code keeps page 0 and cursor -1, the formula gives
  page -1 and cursor 1. And a delegate whose height and spacing add up to 0 makes the
  code divide by zero.
\<close>

theorem updatePagination_negative_index_counterexample:
  "updatePagination terminal_env (state 6 \<lparr>Page = 0, PerPage = 2, TotalPages = 1\<rparr> (- 1) 0 [[], [], [], []])
     = Inr (state 6 \<lparr>Page = 0, PerPage = 2, TotalPages = 1\<rparr> (- 1) 0 [[], [], [], []])
   \<and> Index (state 6 \<lparr>Page = 0, PerPage = 2, TotalPages = 1\<rparr> (- 1) 0 [[], [], [], []]) = - 1
   \<and> spec_pagination (spec_availableHeight 6 False 2 False 1) 2 1 0 (- 1) = (2, 1, - 1, 1)
   \<and> updatePagination terminal_env
        ((state 6 \<lparr>Page = 0, PerPage = 2, TotalPages = 1\<rparr> 0 0 [[], [], [], []])
           \<lparr>delegate := \<lparr>Height = 0, Spacing = 0\<rparr>\<rparr>) = Inl DivideByZero"
  by (simp add: updatePagination_def state_def rows_def Index_def VisibleItems_def
      paginator_SetTotalPages_def max_int_def signed_divide_int_def signed_modulo_int_def
      spec_pagination_def spec_availableHeight_def)

text \<open>
  C1, amended. For every model state whose active category indexes a buffer, whose
  delegate's height plus spacing is not 0, whose global index \<open>page * itemsPerPage +
  cursor\<close> is not negative, and in which the global index, the height plus spacing, the
  available height and their quotient stay within the 64-bit range (so that the code's
  arithmetic does not wrap around), \<open>updatePagination\<close> succeeds and leaves every field
  but the paginator and the cursor as it was; the new items per page, total pages, page
  and cursor are exactly those of the specification's formula, the available height
  being the stored height minus the height of the title view (if shown) and of the
  status view (if shown).
\<close>

theorem updatePagination_formula:
  assumes "category_in_range m" and "Height (delegate m) + Spacing (delegate m) \<noteq> 0"
    and "0 \<le> Index m" and "pagination_in_int64 env m"
  shows "\<exists>sv its. statusView m = Inr sv \<and> VisibleItems m = Inr its \<and>
     (case spec_pagination
             (spec_availableHeight (height m) (showTitle m) (lipgloss_Height (titleView env m))
                (showStatusBar m) (lipgloss_Height sv))
             (Height (delegate m)) (Spacing (delegate m)) (int (length its)) (Index m) of
        (itemsPerPage, totalPages, page, cur) \<Rightarrow>
          updatePagination env m =
            Inr (m\<lparr>Paginator := (Paginator m)\<lparr>PerPage := itemsPerPage, TotalPages := totalPages,
                       Page := page\<rparr>, cursor := cur\<rparr>))"
proof -
  from assms(1) obtain sv where sv: "statusView m = Inr sv"
    using statusView_in_range by blast
  from assms(1) have v: "VisibleItems m = Inr (items m ! nat (category m))"
    by (rule VisibleItems_in_range)
  let ?its = "items m ! nat (category m)"
  let ?row = "Height (delegate m) + Spacing (delegate m)"
  define avail where "avail = height m - (if showTitle m then lipgloss_Height (titleView env m) else 0)
                   - (if showStatusBar m then lipgloss_Height sv else 0)"
  define ipp where "ipp = max_int 1 (avail sdiv ?row)"
  define n where "n = (if int (length ?its) < 1 then 1 else int (length ?its))"
  define tp where "tp = n sdiv ipp + (if n smod ipp > 0 then 1 else 0)"
  have i1: "1 \<le> ipp" by (simp add: ipp_def)
  have ipp: "ipp = max 1 \<lfloor>real_of_int avail / real_of_int ?row\<rfloor>"
    unfolding ipp_def using assms(2) by (rule perPage_trunc_floor)
  have tp: "tp = max 1 \<lceil>real_of_int (int (length ?its)) / real_of_int ipp\<rceil>"
    unfolding tp_def n_def by (rule totalPages_ceiling [OF i1]) simp
  then have t1: "1 \<le> tp" by simp
  have pg: "Index m sdiv ipp = \<lfloor>real_of_int (Index m) / real_of_int ipp\<rfloor>"
    and cu: "Index m smod ipp = Index m mod ipp"
    using index_floor_mod [OF assms(3) i1] by simp_all
  have code: "updatePagination env m =
      Inr (m\<lparr>Paginator := (Paginator m)\<lparr>PerPage := ipp, TotalPages := tp,
                 Page := (if Index m sdiv ipp \<ge> tp - 1 then max_int 0 (tp - 1) else Index m sdiv ipp)\<rparr>,
               cursor := Index m smod ipp\<rparr>)"
    unfolding updatePagination_result [OF assms(2) sv v] Let_def ipp_def tp_def n_def avail_def
    by (rule refl)
  have spec: "spec_pagination (spec_availableHeight (height m) (showTitle m) (lipgloss_Height (titleView env m))
                (showStatusBar m) (lipgloss_Height sv))
             (Height (delegate m)) (Spacing (delegate m)) (int (length ?its)) (Index m) =
       (ipp, tp, (if \<lfloor>real_of_int (Index m) / real_of_int ipp\<rfloor> \<ge> tp
                  then max 0 (tp - 1) else \<lfloor>real_of_int (Index m) / real_of_int ipp\<rfloor>), Index m mod ipp)"
    unfolding spec_pagination_def spec_availableHeight_def Let_def avail_def [symmetric]
      ipp [symmetric] tp [symmetric]
    by (rule refl)
  have "updatePagination env m =
      Inr (m\<lparr>Paginator := (Paginator m)\<lparr>PerPage := ipp, TotalPages := tp,
                 Page := (if \<lfloor>real_of_int (Index m) / real_of_int ipp\<rfloor> \<ge> tp
                  then max 0 (tp - 1) else \<lfloor>real_of_int (Index m) / real_of_int ipp\<rfloor>)\<rparr>,
               cursor := Index m mod ipp\<rparr>)"
    unfolding code clamp_equiv [OF t1] pg cu by (rule refl)
  with sv v spec show ?thesis by simp
qed

theorem updatePagination_formula_witness:
  "category_in_range ((state 24 \<lparr>Page = 1, PerPage = 3, TotalPages = 2\<rparr> 1 0 [five, [], [], []])
       \<lparr>showTitle := True, showStatusBar := True\<rparr>)
   \<and> pagination_in_int64 terminal_env
       ((state 24 \<lparr>Page = 1, PerPage = 3, TotalPages = 2\<rparr> 1 0 [five, [], [], []])
          \<lparr>showTitle := True, showStatusBar := True\<rparr>)
   \<and> Index ((state 24 \<lparr>Page = 1, PerPage = 3, TotalPages = 2\<rparr> 1 0 [five, [], [], []])
       \<lparr>showTitle := True, showStatusBar := True\<rparr>) = 4
   \<and> updatePagination terminal_env
       ((state 24 \<lparr>Page = 1, PerPage = 3, TotalPages = 2\<rparr> 1 0 [five, [], [], []])
          \<lparr>showTitle := True, showStatusBar := True\<rparr>) =
       Inr ((state 24 \<lparr>Page = 0, PerPage = 7, TotalPages = 1\<rparr> 4 0 [five, [], [], []])
          \<lparr>showTitle := True, showStatusBar := True\<rparr>)"
proof -
  let ?m = "(state 24 \<lparr>Page = 1, PerPage = 3, TotalPages = 2\<rparr> 1 0 [five, [], [], []])
       \<lparr>showTitle := True, showStatusBar := True\<rparr>"
  have r: "category_in_range ?m" by (simp add: category_in_range_def state_def)
  have z: "Height (delegate ?m) + Spacing (delegate ?m) \<noteq> 0" by (simp add: state_def rows_def)
  have i: "Index ?m = 4" by (simp add: Index_def state_def)
  then have i0: "0 \<le> Index ?m" by simp
  have sv: "statusView ?m = Inr ''5 items''"
    by (simp add: statusView_def VisibleItems_def state_def five_def plain_Styles_def Itoa_def digits.simps)
  have v: "VisibleItems ?m = Inr five" by (simp add: VisibleItems_def state_def)
  have o: "pagination_in_int64 terminal_env ?m"
    unfolding pagination_in_int64_def sv i
    by (simp add: int64_def spec_availableHeight_def lipgloss_Height_def titleView_def
          terminal_env_def state_def rows_def signed_divide_int_def)
  from updatePagination_formula [OF r z i0 o]
  have "updatePagination terminal_env ?m =
       Inr ((state 24 \<lparr>Page = 0, PerPage = 7, TotalPages = 1\<rparr> 4 0 [five, [], [], []])
          \<lparr>showTitle := True, showStatusBar := True\<rparr>)"
    unfolding sv v
    by (simp add: Index_def spec_pagination_def spec_availableHeight_def lipgloss_Height_def
          titleView_def terminal_env_def five_def state_def rows_def)
  with r i o show ?thesis by simp
qed


subsection \<open>Selection\<close>

text \<open>
  C6. For every global index \<open>i \<ge> 0\<close> and every page size of at least 1, \<open>Select(i)\<close>
  succeeds, sets the page to \<open>i / itemsPerPage\<close> and the cursor to \<open>i mod itemsPerPage\<close>,
  and \<open>Index()\<close> of the result is \<open>i\<close> again.
\<close>

theorem Select_Index_roundtrip:
  assumes "0 \<le> i" and "1 \<le> PerPage (Paginator m)"
  shows "\<exists>m'. Select m i = Inr m'
           \<and> Page (Paginator m') = i div PerPage (Paginator m)
           \<and> cursor m' = i mod PerPage (Paginator m)
           \<and> Index m' = i"
proof -
  from assms have p: "PerPage (Paginator m) \<noteq> 0" "0 < PerPage (Paginator m)" by simp_all
  show ?thesis
    using assms(1) p(2)
    by (simp add: Select_def p(1) Index_def sdiv_nonneg smod_nonneg)
qed

theorem Select_Index_roundtrip_witness:
  "(0::int) \<le> 10
   \<and> 1 \<le> PerPage (Paginator (state 24 \<lparr>Page = 0, PerPage = 7, TotalPages = 2\<rparr> 0 0 [five, [], [], []]))
   \<and> Select (state 24 \<lparr>Page = 0, PerPage = 7, TotalPages = 2\<rparr> 0 0 [five, [], [], []]) 10
       = Inr (state 24 \<lparr>Page = 1, PerPage = 7, TotalPages = 2\<rparr> 3 0 [five, [], [], []])
   \<and> Index (state 24 \<lparr>Page = 1, PerPage = 7, TotalPages = 2\<rparr> 3 0 [five, [], [], []]) = 10"
proof -
  let ?m = "state 24 \<lparr>Page = 0, PerPage = 7, TotalPages = 2\<rparr> 0 0 [five, [], [], []]"
  let ?r = "state 24 \<lparr>Page = 1, PerPage = 7, TotalPages = 2\<rparr> 3 0 [five, [], [], []]"
  have h1: "(0::int) \<le> 10" by simp
  have h2: "1 \<le> PerPage (Paginator ?m)" by (simp add: state_def)
  from Select_Index_roundtrip [OF h1 h2] obtain m' where
    a: "Select ?m 10 = Inr m'" and b: "Index m' = 10" by blast
  have e: "Select ?m 10 = Inr ?r"
    by (simp add: Select_def state_def signed_divide_int_def signed_modulo_int_def)
  from a e have "m' = ?r" by simp
  with b have "Index ?r = 10" by simp
  with h1 h2 e show ?thesis by blast
qed

text \<open>
  C10, as stated, fails. \<open>SelectedItem\<close> returns the buffer's entry as it is stored: after
  \<open>SetItems\<close> with a slice that holds a nil pointer it returns nil. And in a model without
  buffers (as the zero value of \<open>Model\<close>) \<open>m.items[m.category]\<close> is out of range.
\<close>

theorem SelectedItem_nil_counterexample:
  "SetItems terminal_env (state 24 \<lparr>Page = 0, PerPage = 8, TotalPages = 1\<rparr> 0 0 [[], [], [], []]) [None]
     = Inr (state 24 \<lparr>Page = 0, PerPage = 8, TotalPages = 1\<rparr> 0 0 [[None], [], [], []])
   \<and> SelectedItem (state 24 \<lparr>Page = 0, PerPage = 8, TotalPages = 1\<rparr> 0 0 [[None], [], [], []])
       = Inr None
   \<and> SelectedItem (state 24 \<lparr>Page = 0, PerPage = 8, TotalPages = 1\<rparr> 0 0 [])
       = Inl IndexOutOfRange"
  by (simp add: SetItems_def SelectedItem_def updatePagination_def state_def rows_def Index_def
      VisibleItems_def paginator_SetTotalPages_def max_int_def signed_divide_int_def
      signed_modulo_int_def)

text \<open>
  C10, amended. In every state whose active category indexes a buffer and whose
  selection index \<open>page * itemsPerPage + cursor\<close> is within the 64-bit range, \<open>SelectedItem\<close>
  does not panic and never indexes out of range: it returns a pointer to a zero-valued
  item when the buffer is empty or the selection index is negative or at least the
  buffer's length, and the buffer's entry at the index otherwise; so it returns nil
  only where the buffer itself holds a nil pointer.
\<close>

theorem SelectedItem_total:
  assumes "category_in_range m" and "int64 (Index m)"
  shows "SelectedItem m =
           Inr (if Index m < 0 \<or> length (items m ! nat (category m)) = 0
                    \<or> int (length (items m ! nat (category m))) \<le> Index m
                then Some zero_Item else items m ! nat (category m) ! nat (Index m))
         \<and> (None \<notin> set (items m ! nat (category m)) \<longrightarrow> SelectedItem m \<noteq> Inr None)"
proof -
  let ?its = "items m ! nat (category m)"
  have "?its ! nat (Index m) \<noteq> None"
    if "None \<notin> set ?its" "0 \<le> Index m" "Index m < int (length ?its)"
  proof -
    from that(2,3) have "nat (Index m) < length ?its" by simp
    then have "?its ! nat (Index m) \<in> set ?its" by (rule nth_mem)
    with that(1) show ?thesis by metis
  qed
  then show ?thesis
    using assms(1) by (auto simp add: SelectedItem_def VisibleItems_in_range Let_def)
qed

theorem SelectedItem_total_witness:
  "category_in_range (state 24 \<lparr>Page = 0, PerPage = 7, TotalPages = 1\<rparr> 1 0 [five, [], [], []])
   \<and> int64 (Index (state 24 \<lparr>Page = 0, PerPage = 7, TotalPages = 1\<rparr> 1 0 [five, [], [], []]))
   \<and> None \<notin> set five
   \<and> SelectedItem (state 24 \<lparr>Page = 0, PerPage = 7, TotalPages = 1\<rparr> 1 0 [five, [], [], []])
       = Inr (story ''b'')
   \<and> SelectedItem (state 24 \<lparr>Page = 0, PerPage = 7, TotalPages = 1\<rparr> 1 0 [five, [], [], []])
       \<noteq> Inr None
   \<and> SelectedItem (state 24 \<lparr>Page = 1, PerPage = 7, TotalPages = 1\<rparr> 1 0 [five, [], [], []])
       = Inr (Some zero_Item)"
proof -
  let ?m = "state 24 \<lparr>Page = 0, PerPage = 7, TotalPages = 1\<rparr> 1 0 [five, [], [], []]"
  let ?o = "state 24 \<lparr>Page = 1, PerPage = 7, TotalPages = 1\<rparr> 1 0 [five, [], [], []]"
  have r: "category_in_range ?m" "category_in_range ?o"
    by (simp_all add: category_in_range_def state_def)
  have b: "items ?m ! nat (category ?m) = five" "items ?o ! nat (category ?o) = five"
    by (simp_all add: state_def)
  have n: "None \<notin> set five" by (simp add: five_def story_def)
  have i: "Index ?m = 1" "Index ?o = 8" by (simp_all add: Index_def state_def)
  have o: "int64 (Index ?m)" "int64 (Index ?o)" by (simp_all add: i int64_def)
  from SelectedItem_total [OF r(1) o(1)] have
    "SelectedItem ?m =
       Inr (if Index ?m < 0 \<or> length five = 0 \<or> int (length five) \<le> Index ?m
            then Some zero_Item else five ! nat (Index ?m))"
    and "None \<notin> set five \<longrightarrow> SelectedItem ?m \<noteq> Inr None"
    unfolding b by blast+
  with n i have 1: "SelectedItem ?m = Inr (story ''b'')" and 2: "SelectedItem ?m \<noteq> Inr None"
    by (simp_all add: five_def)
  from SelectedItem_total [OF r(2) o(2)] have
    "SelectedItem ?o =
       Inr (if Index ?o < 0 \<or> length five = 0 \<or> int (length five) \<le> Index ?o
            then Some zero_Item else five ! nat (Index ?o))"
    unfolding b by blast
  with i have 3: "SelectedItem ?o = Inr (Some zero_Item)" by (simp add: five_def)
  from r(1) o(1) n 1 2 3 show ?thesis by blast
qed

subsection \<open>The cursor\<close>

lemma CursorUp_nonneg: "0 \<le> cursor (CursorUp m)"
  by (simp add: CursorUp_def Let_def)

lemma CursorDown_le:
  assumes "CursorDown m = Inr m'" and "VisibleItems m = Inr its"
  shows "cursor m' \<le> paginator_ItemsOnPage (Paginator m) (int (length its)) - 1"
  using assms by (auto simp add: CursorDown_def Let_def split: if_splits)

text \<open>
  \<open>CursorUp\<close> preserves the cursor invariant, and so does \<open>CursorDown\<close> on a page that
  holds at least one item.
\<close>

lemma CursorUp_preserves_invariant:
  "cursor_invariant m \<Longrightarrow> cursor_invariant (CursorUp m)"
  by (auto simp add: cursor_invariant_def CursorUp_def VisibleItems_def Let_def
      split: sum.splits if_splits)

lemma CursorDown_preserves_invariant_nonempty:
  assumes "cursor_invariant m" and "VisibleItems m = Inr its"
    and "1 \<le> paginator_ItemsOnPage (Paginator m) (int (length its))"
  shows "\<exists>m'. CursorDown m = Inr m' \<and> cursor_invariant m'"
  using assms
  by (auto simp add: cursor_invariant_def CursorDown_def VisibleItems_def Let_def
      split: sum.splits if_splits)

text \<open>
  C4. The claim: every cursor operation preserves \<open>0 \<le> cursor < itemsOnCurrentPage\<close>, with
  cursor 0 on an empty page, also for an empty buffer. \<open>CursorUp\<close> never goes below 0 and
  \<open>CursorDown\<close> never exceeds \<open>itemsOnPage - 1\<close>, but on an empty page
  \<open>itemsOnPage - 1\<close> is -1: \<open>CursorDown\<close> takes the cursor of a state that satisfies the
  invariant from 0 to -1. The same happens through the update loop, on the state that
  \<open>New\<close> builds, when the key for cursor-down arrives: the bounds check at the end of
  \<open>handleBrowsing\<close> leaves -1 in place.
\<close>

theorem CursorDown_empty_page:
  "cursor_invariant (state 24 \<lparr>Page = 0, PerPage = 7, TotalPages = 1\<rparr> 0 0 [[], [], [], []])
   \<and> CursorDown (state 24 \<lparr>Page = 0, PerPage = 7, TotalPages = 1\<rparr> 0 0 [[], [], [], []])
       = Inr (state 24 \<lparr>Page = 0, PerPage = 7, TotalPages = 1\<rparr> (- 1) 0 [[], [], [], []])
   \<and> \<not> cursor_invariant (state 24 \<lparr>Page = 0, PerPage = 7, TotalPages = 1\<rparr> (- 1) 0 [[], [], [], []])
   \<and> (\<exists>m0 m1 c. New terminal_env rows 80 24 = Inr m0 \<and> cursor_invariant m0
         \<and> Update terminal_env m0 (KeyMsg ''down'') = Inr (m1, c)
         \<and> cursor m1 = - 1 \<and> \<not> cursor_invariant m1)"
proof -
  let ?m0 = "\<lparr>showTitle = True, showStatusBar = True, disableInput = True,
      Styles = plain_Styles, KeyMap = arrow_KeyMap, showSpinner = False,
      width = 80, height = 24, Paginator = \<lparr>Page = 0, PerPage = 7, TotalPages = 1\<rparr>, cursor = 0,
      onStartup = True, statusMessage = [], category = 0, items = [[], [], [], []],
      delegate = rows\<rparr>"
  have a: "cursor_invariant (state 24 \<lparr>Page = 0, PerPage = 7, TotalPages = 1\<rparr> 0 0 [[], [], [], []])"
    by (simp add: cursor_invariant_def state_def VisibleItems_def paginator_ItemsOnPage_def)
  have b: "CursorDown (state 24 \<lparr>Page = 0, PerPage = 7, TotalPages = 1\<rparr> 0 0 [[], [], [], []])
       = Inr (state 24 \<lparr>Page = 0, PerPage = 7, TotalPages = 1\<rparr> (- 1) 0 [[], [], [], []])"
    by (simp add: CursorDown_def state_def VisibleItems_def paginator_ItemsOnPage_def)
  have c: "\<not> cursor_invariant (state 24 \<lparr>Page = 0, PerPage = 7, TotalPages = 1\<rparr> (- 1) 0 [[], [], [], []])"
    by (simp add: cursor_invariant_def state_def VisibleItems_def paginator_ItemsOnPage_def)
  have n: "New terminal_env rows 80 24 = Inr ?m0"
    by (simp add: New_def updatePagination_def terminal_env_def rows_def numberOfCategories_def
        paginator_New_def Index_def titleView_def statusView_def VisibleItems_def lipgloss_Height_def
        plain_Styles_def Itoa_def digits.simps paginator_SetTotalPages_def max_int_def
        signed_divide_int_def signed_modulo_int_def eval_nat_numeral)
  have i: "cursor_invariant ?m0"
    by (simp add: cursor_invariant_def VisibleItems_def paginator_ItemsOnPage_def)
  have u: "Update terminal_env ?m0 (KeyMsg ''down'') =
      Inr (?m0\<lparr>cursor := - 1\<rparr>, CmdBatch [CmdBatch [CmdDelegate]])"
    by (simp add: Update_def handleBrowsing_def handleKey_def CursorDown_def VisibleItems_def
        paginator_ItemsOnPage_def arrow_KeyMap_def terminal_env_def max_int_def)
  have j: "\<not> cursor_invariant (?m0\<lparr>cursor := - 1\<rparr>)"
    by (simp add: cursor_invariant_def VisibleItems_def paginator_ItemsOnPage_def)
  from n i u j have "\<exists>m0 m1 c. New terminal_env rows 80 24 = Inr m0 \<and> cursor_invariant m0
         \<and> Update terminal_env m0 (KeyMsg ''down'') = Inr (m1, c)
         \<and> cursor m1 = - 1 \<and> \<not> cursor_invariant m1"
    by (intro exI [of _ ?m0] exI [of _ "?m0\<lparr>cursor := - 1\<rparr>"]
        exI [of _ "CmdBatch [CmdBatch [CmdDelegate]]"]) simp
  with a b c show ?thesis by blast
qed

subsection \<open>Categories\<close>






subsection \<open>The fetch-completion event\<close>




subsection \<open>The body of the view\<close>

text \<open>
  C7, as stated, fails: for an empty buffer \<open>populatedView\<close> renders the empty text with
  the \<open>NoItems\<close> style, so with a style that adds nothing the body is the empty string.
\<close>

theorem populatedView_empty_counterexample:
  "VisibleItems (state 24 \<lparr>Page = 0, PerPage = 7, TotalPages = 1\<rparr> 0 0 [[], [], [], []]) = Inr []
   \<and> populatedView terminal_env
        (state 24 \<lparr>Page = 0, PerPage = 7, TotalPages = 1\<rparr> 0 0 [[], [], [], []]) = Inr []"
  by (simp add: populatedView_def state_def VisibleItems_def plain_Styles_def)

text \<open>
  C7, amended. For every state in which the active category's buffer is empty, the
  rendered body is the \<open>NoItems\<close> style applied to the empty text: it holds no placeholder
  text, only what the style itself emits around nothing.
\<close>

theorem populatedView_empty:
  assumes "VisibleItems m = Inr []"
  shows "populatedView env m = Inr (NoItems (Styles m) [])"
  using assms by (simp add: populatedView_def)

theorem populatedView_empty_witness:
  "VisibleItems ((state 24 \<lparr>Page = 0, PerPage = 7, TotalPages = 1\<rparr> 0 0 [[], [], [], []])
       \<lparr>Styles := plain_Styles\<lparr>NoItems := (\<lambda>s. DIMMED @ s @ NORMAL)\<rparr>\<rparr>) = Inr []
   \<and> populatedView terminal_env
        ((state 24 \<lparr>Page = 0, PerPage = 7, TotalPages = 1\<rparr> 0 0 [[], [], [], []])
           \<lparr>Styles := plain_Styles\<lparr>NoItems := (\<lambda>s. DIMMED @ s @ NORMAL)\<rparr>\<rparr>)
       = Inr (DIMMED @ NORMAL)"
proof -
  let ?m = "(state 24 \<lparr>Page = 0, PerPage = 7, TotalPages = 1\<rparr> 0 0 [[], [], [], []])
       \<lparr>Styles := plain_Styles\<lparr>NoItems := (\<lambda>s. DIMMED @ s @ NORMAL)\<rparr>\<rparr>"
  have v: "VisibleItems ?m = Inr []" by (simp add: VisibleItems_def state_def)
  from populatedView_empty [OF v, of terminal_env] v show ?thesis
    by (simp add: state_def)
qed

end
